theory Spec2Isabelle
  imports Complex_Main
begin

section \<open>JavaScript numbers\<close>

text \<open>
  The dashboard (\<^verbatim>\<open>src/frontend/src/App.jsx\<close>) computes with JavaScript numbers. A
  number is modelled as a finite real, one of the two infinities, or \<^verbatim>\<open>NaN\<close>, so that
  a division by zero, \<^verbatim>\<open>Math.min()\<close> of nothing and arithmetic on \<^verbatim>\<open>undefined\<close> are
  values of the model. Finite arithmetic is exact: rounding to a double, overflow and
  the sign of zero are not modelled (a zero divisor counts as \<^verbatim>\<open>+0\<close>).
\<close>

datatype jsnum = Fin real | PInf | NInf | NaN

text \<open>The infinity with the sign of \<open>s\<close>; \<^verbatim>\<open>NaN\<close> for \<open>s = 0\<close> (as in \<^verbatim>\<open>0/0\<close>, \<^verbatim>\<open>Infinity*0\<close>).\<close>

definition signed_inf :: "real \<Rightarrow> jsnum" where
  "signed_inf s = (if 0 < s then PInf else if s < 0 then NInf else NaN)"

fun js_neg :: "jsnum \<Rightarrow> jsnum" where
  "js_neg (Fin a) = Fin (- a)"
| "js_neg PInf = NInf"
| "js_neg NInf = PInf"
| "js_neg NaN = NaN"

fun js_add :: "jsnum \<Rightarrow> jsnum \<Rightarrow> jsnum" where
  "js_add (Fin a) (Fin b) = Fin (a + b)"
| "js_add NaN _ = NaN"
| "js_add _ NaN = NaN"
| "js_add PInf NInf = NaN"
| "js_add NInf PInf = NaN"
| "js_add PInf _ = PInf"
| "js_add _ PInf = PInf"
| "js_add NInf _ = NInf"
| "js_add _ NInf = NInf"

definition js_sub :: "jsnum \<Rightarrow> jsnum \<Rightarrow> jsnum" where
  "js_sub a b = js_add a (js_neg b)"

fun js_mul :: "jsnum \<Rightarrow> jsnum \<Rightarrow> jsnum" where
  "js_mul (Fin a) (Fin b) = Fin (a * b)"
| "js_mul NaN _ = NaN"
| "js_mul _ NaN = NaN"
| "js_mul PInf (Fin b) = signed_inf b"
| "js_mul (Fin a) PInf = signed_inf a"
| "js_mul NInf (Fin b) = signed_inf (- b)"
| "js_mul (Fin a) NInf = signed_inf (- a)"
| "js_mul PInf PInf = PInf"
| "js_mul PInf NInf = NInf"
| "js_mul NInf PInf = NInf"
| "js_mul NInf NInf = PInf"

fun js_div :: "jsnum \<Rightarrow> jsnum \<Rightarrow> jsnum" where
  "js_div (Fin a) (Fin b) = (if b = 0 then signed_inf a else Fin (a / b))"
| "js_div NaN _ = NaN"
| "js_div _ NaN = NaN"
| "js_div (Fin a) PInf = Fin 0"
| "js_div (Fin a) NInf = Fin 0"
| "js_div PInf (Fin b) = (if 0 \<le> b then PInf else NInf)"
| "js_div NInf (Fin b) = (if 0 \<le> b then NInf else PInf)"
| "js_div PInf PInf = NaN"
| "js_div PInf NInf = NaN"
| "js_div NInf PInf = NaN"
| "js_div NInf NInf = NaN"

text \<open>Comparisons: every comparison with \<^verbatim>\<open>NaN\<close> is false.\<close>

fun js_lt :: "jsnum \<Rightarrow> jsnum \<Rightarrow> bool" where
  "js_lt (Fin a) (Fin b) = (a < b)"
| "js_lt NaN _ = False"
| "js_lt _ NaN = False"
| "js_lt _ NInf = False"
| "js_lt PInf _ = False"
| "js_lt NInf _ = True"
| "js_lt _ PInf = True"

fun js_le :: "jsnum \<Rightarrow> jsnum \<Rightarrow> bool" where
  "js_le (Fin a) (Fin b) = (a \<le> b)"
| "js_le NaN _ = False"
| "js_le _ NaN = False"
| "js_le NInf _ = True"
| "js_le _ PInf = True"
| "js_le _ NInf = False"
| "js_le PInf _ = False"

definition js_gt :: "jsnum \<Rightarrow> jsnum \<Rightarrow> bool" where
  "js_gt a b = js_lt b a"

definition js_ge :: "jsnum \<Rightarrow> jsnum \<Rightarrow> bool" where
  "js_ge a b = js_le b a"

text \<open>Truthiness of a number: \<^verbatim>\<open>0\<close> and \<^verbatim>\<open>NaN\<close> are falsy. \<^verbatim>\<open>a || b\<close> on numbers.\<close>

fun truthy :: "jsnum \<Rightarrow> bool" where
  "truthy (Fin a) = (a \<noteq> 0)"
| "truthy NaN = False"
| "truthy _ = True"

definition js_or :: "jsnum \<Rightarrow> jsnum \<Rightarrow> jsnum" where
  "js_or a b = (if truthy a then a else b)"

text \<open>
  A field read from a record that may lack it: \<^verbatim>\<open>undefined\<close> is \<open>None\<close>. In arithmetic
  \<^verbatim>\<open>undefined\<close> converts to \<^verbatim>\<open>NaN\<close>; under \<^verbatim>\<open>||\<close> it is falsy, as \<^verbatim>\<open>0\<close> is.
\<close>

fun to_num :: "real option \<Rightarrow> jsnum" where
  "to_num None = NaN"
| "to_num (Some v) = Fin v"

fun or_default :: "real option \<Rightarrow> real \<Rightarrow> real" where
  "or_default None d = d"
| "or_default (Some v) d = (if v \<noteq> 0 then v else d)"

text \<open>\<^verbatim>\<open>Math.min\<close> and \<^verbatim>\<open>Math.max\<close>, of two arguments and of a spread list.\<close>

fun Math_min2 :: "jsnum \<Rightarrow> jsnum \<Rightarrow> jsnum" where
  "Math_min2 NaN _ = NaN"
| "Math_min2 _ NaN = NaN"
| "Math_min2 a b = (if js_le a b then a else b)"

fun Math_max2 :: "jsnum \<Rightarrow> jsnum \<Rightarrow> jsnum" where
  "Math_max2 NaN _ = NaN"
| "Math_max2 _ NaN = NaN"
| "Math_max2 a b = (if js_le a b then b else a)"

definition Math_min :: "jsnum list \<Rightarrow> jsnum" where
  "Math_min xs = foldl Math_min2 PInf xs"

definition Math_max :: "jsnum list \<Rightarrow> jsnum" where
  "Math_max xs = foldl Math_max2 NInf xs"

text \<open>\<^verbatim>\<open>x ** 0.5\<close>: the square root, \<^verbatim>\<open>NaN\<close> below zero.\<close>

fun pow_half :: "jsnum \<Rightarrow> jsnum" where
  "pow_half (Fin a) = (if a < 0 then NaN else Fin (sqrt a))"
| "pow_half PInf = PInf"
| "pow_half NInf = PInf"
| "pow_half NaN = NaN"

section \<open>Price classification (\<^verbatim>\<open>mockListings\<close>, \<^verbatim>\<open>ListingRow\<close>, \<^verbatim>\<open>FlagsView\<close>)\<close>

record market_value =
  label :: string
  color :: string
  pct_vs_avg :: jsnum

text \<open>The benchmark table of \<^verbatim>\<open>mockListings\<close> and line 30, \<^verbatim>\<open>benchmarks[suburb] || 2500\<close>.\<close>

definition benchmarks :: "string \<rightharpoonup> real" where
  "benchmarks =
     [''Waigani'' \<mapsto> 4470, ''Boroko'' \<mapsto> 3150, ''Gerehu'' \<mapsto> 1880, ''Gordons'' \<mapsto> 5957,
      ''Hohola'' \<mapsto> 1600, ''Tokarara'' \<mapsto> 2275, ''Koki'' \<mapsto> 2900, ''Badili'' \<mapsto> 3325,
      ''Six Mile'' \<mapsto> 1450, ''Eight Mile'' \<mapsto> 1225]"

definition base_of :: "real option \<Rightarrow> real" where
  "base_of bench = or_default bench 2500"

text \<open>Line 33: \<^verbatim>\<open>pct = ((price - avg) / avg) * 100\<close>.\<close>

definition pct_of :: "real \<Rightarrow> real \<Rightarrow> jsnum" where
  "pct_of price avg = js_mul (js_div (js_sub (Fin price) (Fin avg)) (Fin avg)) (Fin 100)"

text \<open>Line 34: the label is chosen from \<open>pct\<close> alone, \<^verbatim>\<open>Deal\<close> tested first.\<close>

definition mv_of :: "jsnum \<Rightarrow> market_value" where
  "mv_of pct =
     (if js_le pct (Fin (- 15)) then \<lparr>label = ''Deal'', color = ''#4ade80'', pct_vs_avg = pct\<rparr>
      else if js_ge pct (Fin 15) then \<lparr>label = ''Overpriced'', color = ''#f87171'', pct_vs_avg = pct\<rparr>
      else \<lparr>label = ''Fair'', color = ''#facc15'', pct_vs_avg = pct\<rparr>)"

definition market_value_of :: "real \<Rightarrow> real \<Rightarrow> market_value" where
  "market_value_of price avg = mv_of (pct_of price avg)"

text \<open>
  Lines 30 and 32 to 34 as a function of the price and of the table entry found for the
  suburb (\<open>None\<close> when the suburb has no entry). The source has no failing branch here:
  the result is always a value.
\<close>

datatype error = InvalidBenchmark

definition classify :: "real \<Rightarrow> real option \<Rightarrow> error + market_value" where
  "classify price bench = Inr (market_value_of price (base_of bench))"

text \<open>
  A listing, with the fields the classification reads. \<^verbatim>\<open>market_value\<close> may be absent on
  a listing received from the service (the views read it with \<^verbatim>\<open>?.\<close>).
\<close>

record listing =
  suburb :: string
  price_monthly_k :: real
  market_value :: "market_value option"

definition SUBURBS :: "string list" where
  "SUBURBS = [''Waigani'', ''Boroko'', ''Gerehu'', ''Gordons'', ''Hohola'', ''Tokarara'',
              ''Koki'', ''Badili'', ''Six Mile'', ''Eight Mile'']"

text \<open>
  One element of \<^verbatim>\<open>mockListings\<close>: index \<open>i\<close>, and the number \<open>x\<close> that
  \<^verbatim>\<open>base * (0.75 + Math.random() * 0.6)\<close> evaluated to on line 31. That product is
  computed in doubles and depends on the random draw, so its value is an input here
  and is not recomputed in exact arithmetic. \<^verbatim>\<open>Math.round x\<close> is \<open>\<lfloor>x + 1/2\<rfloor>\<close>.
\<close>

definition mockListing :: "nat \<Rightarrow> real \<Rightarrow> listing" where
  "mockListing i x =
     (let sub = SUBURBS ! (i mod length SUBURBS);
          base = base_of (benchmarks sub);
          price = max 800 (of_int \<lfloor>x + 1 / 2\<rfloor>)
      in \<lparr>suburb = sub, price_monthly_k = price,
          market_value = Some (market_value_of price base)\<rparr>)"

text \<open>\<^verbatim>\<open>ListingRow\<close>, line 246: the flag of a table row.\<close>

definition isFlag :: "listing \<Rightarrow> bool" where
  "isFlag l =
     ((case market_value l of None \<Rightarrow> False | Some mv \<Rightarrow> label mv = ''Overpriced'') \<and>
      (case market_value l of None \<Rightarrow> False | Some mv \<Rightarrow> js_gt (pct_vs_avg mv) (Fin 40)))"

text \<open>\<^verbatim>\<open>FlagsView\<close>, line 657: the fallback list of flagged listings.\<close>

definition FlagsView_flagged :: "listing list \<Rightarrow> listing list" where
  "FlagsView_flagged ls =
     filter (\<lambda>l. (case market_value l of None \<Rightarrow> False | Some mv \<Rightarrow> label mv = ''Overpriced'') \<and>
                 (case market_value l of None \<Rightarrow> False | Some mv \<Rightarrow> js_gt (pct_vs_avg mv) (Fin 40))) ls"

section \<open>Trend chart (\<^verbatim>\<open>LineChart\<close>)\<close>

text \<open>
  A point of the trend series: its week label and the value \<^verbatim>\<open>d[k]\<close> of each series
  key, \<open>None\<close> where the point has no such field.
\<close>

record trend_point =
  week :: string
  vals :: "string \<rightharpoonup> real"

definition keys :: "string list" where
  "keys = [''Waigani'', ''Boroko'', ''Gerehu'']"

definition chart_W :: real where "chart_W = 560"
definition chart_H :: real where "chart_H = 160"
definition PL :: real where "PL = 55"
definition PB :: real where "PB = 28"
definition PT :: real where "PT = 12"
definition PR :: real where "PR = 16"
definition iW :: real where "iW = chart_W - PL - PR"
definition iH :: real where "iH = chart_H - PB - PT"

text \<open>\<^verbatim>\<open>Boolean(d[k])\<close>, the test of \<^verbatim>\<open>filter(Boolean)\<close> and of \<^verbatim>\<open>d[k] ? ... : ...\<close>.\<close>

fun truthy_val :: "real option \<Rightarrow> bool" where
  "truthy_val None = False"
| "truthy_val (Some v) = (v \<noteq> 0)"

text \<open>Line 136: \<^verbatim>\<open>trends.flatMap(d => keys.map(k => d[k]).filter(Boolean))\<close>.\<close>

definition allV :: "trend_point list \<Rightarrow> jsnum list" where
  "allV trends =
     concat (map (\<lambda>d. map to_num (filter truthy_val (map (\<lambda>k. vals d k) keys))) trends)"

text \<open>Line 137.\<close>

definition minV :: "trend_point list \<Rightarrow> jsnum" where
  "minV trends = Math_min (allV trends)"

definition maxV :: "trend_point list \<Rightarrow> jsnum" where
  "maxV trends = Math_max (allV trends)"

definition range_of :: "trend_point list \<Rightarrow> jsnum" where
  "range_of trends = js_or (js_sub (maxV trends) (minV trends)) (Fin 1)"

text \<open>Lines 138 and 139; \<open>toX\<close> divides by \<^verbatim>\<open>trends.length - 1\<close>.\<close>

definition toX :: "trend_point list \<Rightarrow> nat \<Rightarrow> jsnum" where
  "toX trends i =
     js_add (Fin PL) (js_mul (js_div (Fin (real i)) (Fin (real (length trends) - 1))) (Fin iW))"

definition toY :: "trend_point list \<Rightarrow> jsnum \<Rightarrow> jsnum" where
  "toY trends v =
     js_sub (js_add (Fin PT) (Fin iH))
            (js_mul (js_div (js_sub v (minV trends)) (range_of trends)) (Fin iH))"

text \<open>
  The rendered chart. A vertex \<^verbatim>\<open>"x,y"\<close> of the \<^verbatim>\<open>points\<close> attribute is a pair; a
  series is one \<^verbatim>\<open>polyline\<close> element and its \<^verbatim>\<open>circle\<close> elements; a gridline is its
  value and its height (the text of its label is left out); an axis label is its
  position and the week.
\<close>

type_synonym vertex = "jsnum \<times> jsnum"

record series_svg =
  polyline :: "vertex list"
  circles :: "vertex list"

datatype chart =
    NoData
  | Svg (gridlines: "(jsnum \<times> jsnum) list") (series: "series_svg option list")
        (axis: "(jsnum \<times> string) list")

text \<open>Lines 142 to 145.\<close>

definition gridlines_of :: "trend_point list \<Rightarrow> (jsnum \<times> jsnum) list" where
  "gridlines_of trends =
     map (\<lambda>i. let v = js_add (minV trends) (js_mul (js_div (Fin (real i)) (Fin 3)) (range_of trends))
              in (v, toY trends v)) [0, 1, 2, 3]"

text \<open>
  Line 147: the strings \<^verbatim>\<open>"x,y"\<close> (here \<open>Some\<close>) and \<^verbatim>\<open>""\<close> (here \<open>None\<close>), of which
  \<^verbatim>\<open>filter(Boolean)\<close> keeps the non-empty ones, joined into one \<^verbatim>\<open>points\<close> attribute.
\<close>

definition pts_of :: "trend_point list \<Rightarrow> string \<Rightarrow> vertex list" where
  "pts_of trends k =
     List.map_filter
       (\<lambda>(i, d). if truthy_val (vals d k) then Some (toX trends i, toY trends (to_num (vals d k)))
                 else None)
       (enumerate 0 trends)"

text \<open>Line 151: a circle for each point with a value, \<^verbatim>\<open>null\<close> (nothing) otherwise.\<close>

definition circles_of :: "trend_point list \<Rightarrow> string \<Rightarrow> vertex list" where
  "circles_of trends k =
     List.map_filter
       (\<lambda>(i, d). if truthy_val (vals d k) then Some (toX trends i, toY trends (to_num (vals d k)))
                 else None)
       (enumerate 0 trends)"

text \<open>Lines 146 to 153: a series without points renders nothing.\<close>

definition series_of :: "trend_point list \<Rightarrow> string \<Rightarrow> series_svg option" where
  "series_of trends k =
     (let pts = pts_of trends k
      in if pts = [] then None
         else Some \<lparr>polyline = pts, circles = circles_of trends k\<rparr>)"

definition LineChart :: "trend_point list \<Rightarrow> chart" where
  "LineChart trends =
     (if trends = [] then NoData
      else Svg (gridlines_of trends)
               (map (series_of trends) keys)
               (map (\<lambda>(i, d). (toX trends i, week d)) (enumerate 0 trends)))"

section \<open>Heatmap bubbles (\<^verbatim>\<open>HeatmapViz\<close>)\<close>

record suburb_stat =
  avg_price :: "real option"
  listings :: "real option"
  lat :: "real option"
  lng :: "real option"

definition LAT0 :: real where "LAT0 = - 9.505"
definition LAT1 :: real where "LAT1 = - 9.37"
definition LNG0 :: real where "LNG0 = 147.13"
definition LNG1 :: real where "LNG1 = 147.21"
definition map_W :: real where "map_W = 520"
definition map_H :: real where "map_H = 320"

definition map_toX :: "jsnum \<Rightarrow> jsnum" where
  "map_toX g = js_mul (js_div (js_sub g (Fin LNG0)) (Fin (LNG1 - LNG0))) (Fin map_W)"

definition map_toY :: "jsnum \<Rightarrow> jsnum" where
  "map_toY a = js_mul (js_div (js_sub a (Fin LAT0)) (Fin (LAT1 - LAT0))) (Fin map_H)"

text \<open>Line 165: \<^verbatim>\<open>Math.max(...suburbs.map(s => s.listings || 1))\<close>.\<close>

definition maxL_of :: "suburb_stat list \<Rightarrow> jsnum" where
  "maxL_of suburbs = Math_max (map (\<lambda>s. Fin (or_default (listings s) 1)) suburbs)"

text \<open>Line 166: \<^verbatim>\<open>rOf = l => 22 + ((l / maxL) ** 0.5) * 28\<close>.\<close>

definition rOf :: "jsnum \<Rightarrow> jsnum \<Rightarrow> jsnum" where
  "rOf maxL l = js_add (Fin 22) (js_mul (pow_half (js_div l maxL)) (Fin 28))"

record bubble =
  cx :: jsnum
  cy :: jsnum
  radius :: jsnum

text \<open>
  Lines 172 and 173: a suburb without coordinates is skipped; the radius is
  \<^verbatim>\<open>rOf(s.listings || 20)\<close>.
\<close>

definition bubble_of :: "jsnum \<Rightarrow> suburb_stat \<Rightarrow> bubble option" where
  "bubble_of maxL s =
     (if \<not> truthy_val (lat s) \<or> \<not> truthy_val (lng s) then None
      else Some \<lparr>cx = map_toX (to_num (lng s)), cy = map_toY (to_num (lat s)),
                radius = rOf maxL (Fin (or_default (listings s) 20))\<rparr>)"

definition HeatmapViz :: "suburb_stat list \<Rightarrow> bubble option list option" where
  "HeatmapViz suburbs =
     (if suburbs = [] then None
      else Some (map (bubble_of (maxL_of suburbs)) suburbs))"

section \<open>Supply and demand (\<^verbatim>\<open>SupplyDemand\<close>, \<^verbatim>\<open>AnalyticsView\<close>)\<close>

text \<open>A record of the supply and demand data; \<open>supply_count\<close> is its field \<^verbatim>\<open>supply\<close>.\<close>

record sd_record =
  supply_count :: "real option"
  demand_score :: "real option"

text \<open>Lines 210 and 609: \<^verbatim>\<open>Math.max(...data.map(d => d.supply || 0))\<close>.\<close>

definition maxS_of :: "sd_record list \<Rightarrow> jsnum" where
  "maxS_of data = Math_max (map (\<lambda>d. Fin (or_default (supply_count d) 0)) data)"

text \<open>\<^verbatim>\<open>Math.min(100, (d.supply / maxS) * 100)\<close>, in both views.\<close>

definition supplyPct :: "jsnum \<Rightarrow> sd_record \<Rightarrow> jsnum" where
  "supplyPct maxS d = Math_min2 (Fin 100) (js_mul (js_div (to_num (supply_count d)) maxS) (Fin 100))"

text \<open>Lines 214 and 630.\<close>

definition sd_label :: "jsnum \<Rightarrow> string" where
  "sd_label ratio =
     (if js_gt ratio (Fin 1.3) then ''High Demand''
      else if js_lt ratio (Fin 0.7) then ''Oversupply'' else ''Balanced'')"

text \<open>Line 213, the dashboard panel: the fallback divisor is \<^verbatim>\<open>1\<close>.\<close>

definition SupplyDemand_ratio :: "jsnum \<Rightarrow> sd_record \<Rightarrow> jsnum" where
  "SupplyDemand_ratio maxS d =
     js_div (Fin (or_default (demand_score d) 50)) (js_or (supplyPct maxS d) (Fin 1))"

definition SupplyDemand :: "sd_record list \<Rightarrow> string list option" where
  "SupplyDemand data =
     (if data = [] then None
      else Some (map (\<lambda>d. sd_label (SupplyDemand_ratio (maxS_of data) d)) (take 10 data)))"

text \<open>Line 629, the analytics view: the fallback divisor is \<^verbatim>\<open>50\<close>.\<close>

definition AnalyticsView_ratio :: "jsnum \<Rightarrow> sd_record \<Rightarrow> jsnum" where
  "AnalyticsView_ratio maxSup d =
     js_div (Fin (or_default (demand_score d) 50)) (js_or (supplyPct maxSup d) (Fin 50))"

definition AnalyticsView :: "sd_record list \<Rightarrow> string list" where
  "AnalyticsView sdData = map (\<lambda>d. sd_label (AnalyticsView_ratio (maxS_of sdData) d)) sdData"

section \<open>Scrape job panel (\<^verbatim>\<open>ScrapePanel\<close>)\<close>

text \<open>
  The job as the service reports it, with the fields the controller reads: \<^verbatim>\<open>job_id\<close>
  (\<open>None\<close> when the response has none) and \<^verbatim>\<open>status\<close>. \<^verbatim>\<open>job?.job_id\<close> is falsy when it
  is missing or empty.
\<close>

record scrape_job =
  job_id :: "string option"
  status :: string

fun truthy_str :: "string option \<Rightarrow> bool" where
  "truthy_str None = False"
| "truthy_str (Some s) = (s \<noteq> [])"

definition terminal :: "scrape_job \<Rightarrow> bool" where
  "terminal d = (status d = ''complete'' \<or> status d = ''error'')"

text \<open>
  The state of a mounted panel: the React state \<^verbatim>\<open>sources\<close>, \<^verbatim>\<open>job\<close>, \<^verbatim>\<open>polling\<close>; the ref
  \<^verbatim>\<open>pollRef.current\<close>; the interval timers that \<^verbatim>\<open>setInterval\<close> created and \<^verbatim>\<open>clearInterval\<close>
  has not cleared, by id; the dependencies \<^verbatim>\<open>[polling, job?.job_id]\<close> of the last run of
  the effect and whether that run returned its cleanup function; whether the panel is
  mounted; and the number of trigger and status requests sent so far.
\<close>

record panel =
  sources :: "string list"
  job :: "scrape_job option"
  polling :: bool
  pollRef :: "nat option"
  timers :: "nat set"
  next_timer :: nat
  deps :: "bool \<times> string option"
  cleanup :: bool
  mounted :: bool
  trigger_requests :: nat
  status_requests :: nat

definition init :: panel where
  "init = \<lparr>sources = [''hausples'', ''professionals'', ''agencies''], job = None,
           polling = False, pollRef = None, timers = {}, next_timer = 0,
           deps = (False, None), cleanup = False, mounted = True,
           trigger_requests = 0, status_requests = 0\<rparr>"

definition clearInterval :: "nat option \<Rightarrow> panel \<Rightarrow> panel" where
  "clearInterval h s = (case h of None \<Rightarrow> s | Some t \<Rightarrow> s\<lparr>timers := timers s - {t}\<rparr>)"

definition dep_job_id :: "panel \<Rightarrow> string option" where
  "dep_job_id s = (case job s of None \<Rightarrow> None | Some j \<Rightarrow> job_id j)"

text \<open>
  The body of the effect, lines 282 to 287: it returns at once unless the panel is
  polling a job with an id; otherwise it starts an interval timer, stores its id in
  \<^verbatim>\<open>pollRef.current\<close> and returns the cleanup \<^verbatim>\<open>() => clearInterval(pollRef.current)\<close>.
\<close>

definition poll_effect :: "panel \<Rightarrow> panel" where
  "poll_effect s =
     (if \<not> polling s \<or> \<not> truthy_str (dep_job_id s) then s\<lparr>cleanup := False\<rparr>
      else s\<lparr>pollRef := Some (next_timer s), timers := insert (next_timer s) (timers s),
             next_timer := Suc (next_timer s), cleanup := True\<rparr>)"

definition run_cleanup :: "panel \<Rightarrow> panel" where
  "run_cleanup s = (if cleanup s then clearInterval (pollRef s) s else s)"

text \<open>
  What React does after the state changed: when a dependency of the effect differs from
  the last run, the cleanup of the last run is called, then the effect runs again.
\<close>

definition commit :: "panel \<Rightarrow> panel" where
  "commit s =
     (if \<not> mounted s \<or> (polling s, dep_job_id s) = deps s then s
      else poll_effect ((run_cleanup s)\<lparr>deps := (polling s, dep_job_id s)\<rparr>))"

text \<open>Unmounting the panel calls the cleanup of the last run of the effect.\<close>

definition unmount :: "panel \<Rightarrow> panel" where
  "unmount s = (if mounted s then (run_cleanup s)\<lparr>mounted := False, cleanup := False\<rparr> else s)"

text \<open>
  What can happen to the panel: a click on a source pill; a click on the start button
  (\<^verbatim>\<open>trigger\<close> sends its request); the \<^verbatim>\<open>await\<close> of \<^verbatim>\<open>trigger\<close> resuming with the response
  (\<open>None\<close> is the \<^verbatim>\<open>null\<close> that \<^verbatim>\<open>apiFetch\<close> returns on any failure); the interval timer with
  the given id firing (its callback sends the status request); the \<^verbatim>\<open>await\<close> of that
  callback resuming with the response; a click on the dismiss button; the panel being
  closed.
\<close>

datatype event =
    ToggleSrc string
  | TriggerClick
  | TriggerDone "scrape_job option"
  | Tick nat
  | PollDone "scrape_job option"
  | Dismiss
  | Close

text \<open>
  Setting state on an unmounted panel does nothing. The start button is rendered while
  there is no job and is disabled without a source; the dismiss button is rendered for a
  job with a terminal status. An interval that was cleared does not fire.
\<close>

fun step :: "panel \<Rightarrow> event \<Rightarrow> panel" where
  "step s (ToggleSrc x) =
     (if \<not> mounted s then s
      else if x \<in> set (sources s) then s\<lparr>sources := filter (\<lambda>y. y \<noteq> x) (sources s)\<rparr>
      else s\<lparr>sources := sources s @ [x]\<rparr>)"
| "step s TriggerClick =
     (if mounted s \<and> job s = None \<and> sources s \<noteq> []
      then s\<lparr>trigger_requests := Suc (trigger_requests s)\<rparr> else s)"
| "step s (TriggerDone None) = s"
| "step s (TriggerDone (Some data)) =
     (if mounted s then commit (s\<lparr>job := Some data, polling := True\<rparr>) else s)"
| "step s (Tick t) =
     (if t \<in> timers s then s\<lparr>status_requests := Suc (status_requests s)\<rparr> else s)"
| "step s (PollDone None) = s"
| "step s (PollDone (Some d)) =
     (let s1 = (if mounted s then s\<lparr>job := Some d\<rparr> else s)
      in if terminal d
         then commit (clearInterval (pollRef s1) (if mounted s1 then s1\<lparr>polling := False\<rparr> else s1))
         else commit s1)"
| "step s Dismiss =
     (case job s of
        None \<Rightarrow> s
      | Some j \<Rightarrow> if mounted s \<and> terminal j then unmount (s\<lparr>job := None\<rparr>) else s)"
| "step s Close = unmount s"

text \<open>Line 278 is the only place that sets \<^verbatim>\<open>polling\<close> to true: a trigger response with data.\<close>

fun starts_polling :: "event \<Rightarrow> bool" where
  "starts_polling (TriggerDone (Some data)) = True"
| "starts_polling _ = False"

definition run :: "panel \<Rightarrow> event list \<Rightarrow> panel" where
  "run s es = foldl step s es"

text \<open>What the panel shows: nothing once closed, the form with the start button, or the job.\<close>

datatype view =
    Closed
  | TriggerForm "string list" bool
  | JobView scrape_job bool

definition view_of :: "panel \<Rightarrow> view" where
  "view_of s =
     (if \<not> mounted s then Closed
      else case job s of
             None \<Rightarrow> TriggerForm (sources s) (sources s \<noteq> [])
           | Some j \<Rightarrow> JobView j (terminal j))"

section \<open>Properties of the price classification\<close>

lemma pct_of_fin: "b \<noteq> 0 \<Longrightarrow> pct_of p b = Fin ((p - b) / b * 100)"
  by (simp add: pct_of_def js_sub_def)

lemma pct_mv_of: "pct_vs_avg (mv_of pct) = pct"
  by (simp add: mv_of_def)

text \<open>
  Claim C1. For every price \<open>p\<close> and benchmark \<open>b > 0\<close>, with
  \<open>pct = (p - b) / b * 100\<close>, the label is \<^verbatim>\<open>Deal\<close> exactly when \<open>pct \<le> -15\<close>, \<^verbatim>\<open>Overpriced\<close>
  exactly when \<open>pct \<ge> 15\<close>, and \<^verbatim>\<open>Fair\<close> otherwise; both boundaries are closed.
\<close>

theorem market_value_label_thresholds:
  assumes "0 < b"
  shows "pct_vs_avg (market_value_of p b) = Fin ((p - b) / b * 100)
       \<and> (label (market_value_of p b) = ''Deal'' \<longleftrightarrow> (p - b) / b * 100 \<le> - 15)
       \<and> (label (market_value_of p b) = ''Overpriced'' \<longleftrightarrow> 15 \<le> (p - b) / b * 100)
       \<and> (label (market_value_of p b) = ''Fair''
            \<longleftrightarrow> - 15 < (p - b) / b * 100 \<and> (p - b) / b * 100 < 15)"
proof -
  from assms have "pct_of p b = Fin ((p - b) / b * 100)"
    by (simp add: pct_of_fin)
  then show ?thesis
    by (simp add: market_value_of_def mv_of_def js_ge_def)
qed

text \<open>At the boundaries: 2550 against 3000 is \<open>-15\<close>, a deal; 3450 against 3000 is \<open>15\<close>, overpriced.\<close>

theorem market_value_label_thresholds_witness:
  "(0::real) < 3000
   \<and> pct_vs_avg (market_value_of 2550 3000) = Fin (- 15)
   \<and> label (market_value_of 2550 3000) = ''Deal''
   \<and> pct_vs_avg (market_value_of 3450 3000) = Fin 15
   \<and> label (market_value_of 3450 3000) = ''Overpriced''
   \<and> label (market_value_of 3000 3000) = ''Fair''"
  using market_value_label_thresholds [of 3000 2550] market_value_label_thresholds [of 3000 3450]
    market_value_label_thresholds [of 3000 3000]
  by simp

text \<open>
  Claim C2 says that classifying against a zero or missing benchmark fails with
  \<^verbatim>\<open>InvalidBenchmark\<close>. The code does not fail: line 30 replaces a zero or missing table
  entry by 2500, and the price 3000 is classified against 2500.
\<close>

theorem classify_counterexample:
  "classify 3000 (Some 0) \<noteq> Inl InvalidBenchmark
   \<and> classify 3000 (Some 0)
     = Inr \<lparr>label = ''Overpriced'', color = ''#f87171'', pct_vs_avg = Fin 20\<rparr>
   \<and> classify 3000 None
     = Inr \<lparr>label = ''Overpriced'', color = ''#f87171'', pct_vs_avg = Fin 20\<rparr>"
  by (simp add: classify_def base_of_def market_value_of_def mv_of_def js_ge_def pct_of_def
        js_sub_def)

text \<open>
  Claim C2, amended. For every price \<open>p\<close>, classifying \<open>p\<close> against a zero or missing
  benchmark classifies it against the default benchmark 2500; and whatever the table
  entry, the percentage is a finite number, never an infinity or \<^verbatim>\<open>NaN\<close>.
\<close>

theorem classify_default_benchmark:
  "classify p None = Inr (market_value_of p 2500)
   \<and> classify p (Some 0) = Inr (market_value_of p 2500)
   \<and> pct_vs_avg (market_value_of p 2500) = Fin ((p - 2500) / 2500 * 100)
   \<and> (\<forall>bench. \<exists>v. classify p bench = Inr (mv_of (Fin v)))"
proof -
  have "\<exists>v. classify p bench = Inr (mv_of (Fin v))" for bench
  proof -
    have "base_of bench \<noteq> 0"
      by (cases bench) (simp_all add: base_of_def)
    then show ?thesis
      by (auto simp add: classify_def market_value_of_def pct_of_fin)
  qed
  then show ?thesis
    by (simp add: classify_def base_of_def market_value_of_def pct_of_fin pct_mv_of)
qed

theorem classify_default_benchmark_witness:
  "classify 2000 None = Inr \<lparr>label = ''Deal'', color = ''#4ade80'', pct_vs_avg = Fin (- 20)\<rparr>
   \<and> classify 2000 (Some 0) = Inr \<lparr>label = ''Deal'', color = ''#4ade80'', pct_vs_avg = Fin (- 20)\<rparr>"
  using classify_default_benchmark [of 2000]
  by (simp add: market_value_of_def mv_of_def pct_of_def js_sub_def)

text \<open>
  Claim C3. The middleman flag of a listing is raised exactly when its label is
  \<^verbatim>\<open>Overpriced\<close> and its \<^verbatim>\<open>pct_vs_avg\<close> is above 40, strictly; the fallback of the flags view
  keeps exactly the flagged listings, unchanged; for a listing whose market value was
  computed from \<open>pct\<close> the flag is \<open>pct > 40\<close>; and the label is computed from \<open>pct\<close>
  alone: it is \<^verbatim>\<open>Overpriced\<close> exactly when \<open>pct \<ge> 15\<close>, flagged or not.
\<close>

theorem middleman_flag:
  "(isFlag l \<longleftrightarrow> (\<exists>mv. market_value l = Some mv \<and> label mv = ''Overpriced''
                         \<and> js_gt (pct_vs_avg mv) (Fin 40)))
   \<and> FlagsView_flagged ls = filter isFlag ls
   \<and> (isFlag \<lparr>suburb = sb, price_monthly_k = p, market_value = Some (mv_of pct)\<rparr>
        \<longleftrightarrow> js_gt pct (Fin 40))
   \<and> (label (mv_of pct) = ''Overpriced'' \<longleftrightarrow> js_ge pct (Fin 15))"
proof -
  have a: "isFlag l \<longleftrightarrow> (\<exists>mv. market_value l = Some mv \<and> label mv = ''Overpriced''
                              \<and> js_gt (pct_vs_avg mv) (Fin 40))"
    by (cases "market_value l") (simp_all add: isFlag_def)
  have b: "FlagsView_flagged ls = filter isFlag ls"
    unfolding FlagsView_flagged_def isFlag_def ..
  have c: "isFlag \<lparr>suburb = sb, price_monthly_k = p, market_value = Some (mv_of pct)\<rparr>
             \<longleftrightarrow> js_gt pct (Fin 40)"
    by (cases pct) (auto simp add: isFlag_def mv_of_def js_gt_def js_ge_def)
  have d: "label (mv_of pct) = ''Overpriced'' \<longleftrightarrow> js_ge pct (Fin 15)"
    by (cases pct) (auto simp add: mv_of_def js_ge_def)
  from a b c d show ?thesis by blast
qed

text \<open>3500 against 2500 is 40: overpriced, not flagged. 3501 against 2500 is flagged.\<close>

theorem middleman_flag_witness:
  "market_value_of 3500 2500
     = \<lparr>label = ''Overpriced'', color = ''#f87171'', pct_vs_avg = Fin 40\<rparr>
   \<and> \<not> isFlag \<lparr>suburb = ''Koki'', price_monthly_k = 3500,
                market_value = Some (market_value_of 3500 2500)\<rparr>
   \<and> isFlag \<lparr>suburb = ''Koki'', price_monthly_k = 3501,
              market_value = Some (market_value_of 3501 2500)\<rparr>
   \<and> label (market_value_of 3501 2500) = ''Overpriced''"
  using middleman_flag [of "\<lparr>suburb = ''Koki'', price_monthly_k = 3500,
                             market_value = Some (market_value_of 3500 2500)\<rparr>"
                           "[]" "''Koki''" 3500 "Fin 40"]
        middleman_flag [of "\<lparr>suburb = ''Koki'', price_monthly_k = 3501,
                             market_value = Some (market_value_of 3501 2500)\<rparr>"
                           "[]" "''Koki''" 3501 "Fin (1001 / 25)"]
  by (simp add: market_value_of_def pct_of_def js_sub_def mv_of_def js_ge_def js_gt_def)

section \<open>Properties of the scrape job panel\<close>

lemma timers_clearInterval: "timers (clearInterval h s) = timers s - set_option h"
  by (cases h) (simp_all add: clearInterval_def)

lemma clearInterval_fields [simp]:
  "mounted (clearInterval h s) = mounted s" "polling (clearInterval h s) = polling s"
  "pollRef (clearInterval h s) = pollRef s" "cleanup (clearInterval h s) = cleanup s"
  "job (clearInterval h s) = job s" "deps (clearInterval h s) = deps s"
  "status_requests (clearInterval h s) = status_requests s"
  "next_timer (clearInterval h s) = next_timer s"
  by (cases h; simp add: clearInterval_def)+

lemma commit_inv:
  assumes "timers s \<subseteq> set_option (pollRef s)" "timers s \<noteq> {} \<longrightarrow> cleanup s \<and> mounted s"
  shows "timers (commit s) \<subseteq> set_option (pollRef (commit s))
       \<and> (timers (commit s) \<noteq> {} \<longrightarrow> cleanup (commit s) \<and> mounted (commit s))"
  using assms
  by (auto simp add: commit_def poll_effect_def run_cleanup_def timers_clearInterval)

lemma unmount_inv:
  assumes "timers s \<subseteq> set_option (pollRef s)" "timers s \<noteq> {} \<longrightarrow> cleanup s \<and> mounted s"
  shows "timers (unmount s) = {} \<and> \<not> mounted (unmount s)"
  using assms
  by (auto simp add: unmount_def run_cleanup_def timers_clearInterval)

lemma step_inv:
  assumes "timers s \<subseteq> set_option (pollRef s)" "timers s \<noteq> {} \<longrightarrow> cleanup s \<and> mounted s"
  shows "timers (step s e) \<subseteq> set_option (pollRef (step s e))
       \<and> (timers (step s e) \<noteq> {} \<longrightarrow> cleanup (step s e) \<and> mounted (step s e))"
proof (cases e)
  case (ToggleSrc x)
  with assms show ?thesis by auto
next
  case TriggerClick
  with assms show ?thesis by auto
next
  case (TriggerDone data)
  show ?thesis
  proof (cases data)
    case None
    with TriggerDone assms show ?thesis by simp
  next
    case (Some j)
    show ?thesis
    proof (cases "mounted s")
      case True
      have "timers (commit (s\<lparr>job := Some j, polling := True\<rparr>))
              \<subseteq> set_option (pollRef (commit (s\<lparr>job := Some j, polling := True\<rparr>)))
          \<and> (timers (commit (s\<lparr>job := Some j, polling := True\<rparr>)) \<noteq> {} \<longrightarrow>
               cleanup (commit (s\<lparr>job := Some j, polling := True\<rparr>))
               \<and> mounted (commit (s\<lparr>job := Some j, polling := True\<rparr>)))"
        by (rule commit_inv) (use assms in simp_all)
      with TriggerDone Some True show ?thesis by simp
    next
      case False
      with TriggerDone Some assms show ?thesis by simp
    qed
  qed
next
  case (Tick t)
  with assms show ?thesis by auto
next
  case (PollDone data)
  show ?thesis
  proof (cases data)
    case None
    with PollDone assms show ?thesis by simp
  next
    case (Some d)
    define s1 where "s1 = (if mounted s then s\<lparr>job := Some d\<rparr> else s)"
    define s2 where "s2 = clearInterval (pollRef s1) (if mounted s1 then s1\<lparr>polling := False\<rparr> else s1)"
    have i1: "timers s1 \<subseteq> set_option (pollRef s1)" "timers s1 \<noteq> {} \<longrightarrow> cleanup s1 \<and> mounted s1"
      using assms by (auto simp add: s1_def)
    have i2: "timers s2 \<subseteq> set_option (pollRef s2)" "timers s2 \<noteq> {} \<longrightarrow> cleanup s2 \<and> mounted s2"
      using i1 by (auto simp add: s2_def timers_clearInterval)
    have "step s e = (if terminal d then commit s2 else commit s1)"
      by (simp add: PollDone Some s1_def s2_def Let_def)
    with commit_inv [OF i1] commit_inv [OF i2] show ?thesis by simp
  qed
next
  case Dismiss
  show ?thesis
  proof (cases "job s")
    case None
    with Dismiss assms show ?thesis by simp
  next
    case (Some j)
    have "timers (unmount (s\<lparr>job := None\<rparr>)) = {}"
      using unmount_inv [of "s\<lparr>job := None\<rparr>"] assms by simp
    with Dismiss Some assms show ?thesis by simp
  qed
next
  case Close
  have "timers (unmount s) = {}"
    using unmount_inv [of s] assms by simp
  with Close show ?thesis by simp
qed

lemma run_snoc: "run s (es @ [e]) = step (run s es) e"
  by (simp add: run_def)

lemma run_append: "run s (es @ fs) = run (run s es) fs"
  by (simp add: run_def)

lemma run_Cons: "run s (e # es) = run (step s e) es"
  by (simp add: run_def)

lemma run_inv:
  "timers (run init es) \<subseteq> set_option (pollRef (run init es))
   \<and> (timers (run init es) \<noteq> {} \<longrightarrow> cleanup (run init es) \<and> mounted (run init es))"
proof (induction es rule: rev_induct)
  case Nil
  show ?case by (simp add: run_def init_def)
next
  case (snoc e es)
  then show ?case
    unfolding run_snoc by (intro step_inv) simp_all
qed

text \<open>A panel without a timer that is not polling, or not mounted, stays so and sends nothing.\<close>

lemma commit_quiet:
  assumes "timers s = {}" "\<not> mounted s \<or> \<not> polling s"
  shows "timers (commit s) = {} \<and> (\<not> mounted (commit s) \<or> \<not> polling (commit s))
         \<and> status_requests (commit s) = status_requests s"
  using assms
  by (auto simp add: commit_def poll_effect_def run_cleanup_def timers_clearInterval)

lemma unmount_quiet:
  assumes "timers s = {}"
  shows "timers (unmount s) = {} \<and> (\<not> mounted (unmount s) \<or> \<not> polling (unmount s))
         \<and> status_requests (unmount s) = status_requests s"
  using assms
  by (auto simp add: unmount_def run_cleanup_def timers_clearInterval)

lemma step_quiet:
  assumes "timers s = {}" "\<not> mounted s \<or> \<not> polling s" "\<not> starts_polling e"
  shows "timers (step s e) = {} \<and> (\<not> mounted (step s e) \<or> \<not> polling (step s e))
         \<and> status_requests (step s e) = status_requests s"
proof (cases e)
  case (TriggerDone data)
  with assms show ?thesis by (cases data) simp_all
next
  case (PollDone data)
  show ?thesis
  proof (cases data)
    case None
    with PollDone assms show ?thesis by simp
  next
    case (Some d)
    define s1 where "s1 = (if mounted s then s\<lparr>job := Some d\<rparr> else s)"
    define s2 where "s2 = clearInterval (pollRef s1) (if mounted s1 then s1\<lparr>polling := False\<rparr> else s1)"
    have q1: "timers s1 = {}" "\<not> mounted s1 \<or> \<not> polling s1" "status_requests s1 = status_requests s"
      using assms by (auto simp add: s1_def)
    have q2: "timers s2 = {}" "\<not> mounted s2 \<or> \<not> polling s2" "status_requests s2 = status_requests s"
      using q1 by (auto simp add: s2_def timers_clearInterval)
    have "step s e = (if terminal d then commit s2 else commit s1)"
      by (simp add: PollDone Some s1_def s2_def Let_def)
    with commit_quiet [OF q1(1,2)] commit_quiet [OF q2(1,2)] q1(3) q2(3) show ?thesis by simp
  qed
next
  case Dismiss
  show ?thesis
  proof (cases "job s")
    case None
    with Dismiss assms show ?thesis by simp
  next
    case (Some j)
    with Dismiss assms unmount_quiet [of "s\<lparr>job := None\<rparr>"] show ?thesis by simp
  qed
next
  case Close
  with assms unmount_quiet [of s] show ?thesis by simp
qed (use assms in simp_all)

lemma run_quiet:
  assumes "timers s = {}" "\<not> mounted s \<or> \<not> polling s" "list_all (\<lambda>e. \<not> starts_polling e) es"
  shows "timers (run s es) = {} \<and> status_requests (run s es) = status_requests s"
  using assms
proof (induction es arbitrary: s)
  case Nil
  then show ?case by (simp add: run_def)
next
  case (Cons e es)
  from Cons.prems have e: "\<not> starts_polling e" and es: "list_all (\<lambda>e. \<not> starts_polling e) es"
    by simp_all
  note q = step_quiet [OF Cons.prems(1,2) e]
  from Cons.IH [of "step s e"] q es show ?case
    by (simp add: run_Cons)
qed

text \<open>Once unmounted, the panel starts no timer whatever happens.\<close>

lemma step_stays_unmounted:
  assumes "\<not> mounted s"
  shows "\<not> mounted (step s e)"
proof (cases e)
  case (TriggerDone data)
  with assms show ?thesis by (cases data) simp_all
next
  case (PollDone data)
  with assms show ?thesis by (cases data) (simp_all add: Let_def commit_def)
next
  case Dismiss
  with assms show ?thesis by (cases "job s") simp_all
next
  case Close
  with assms show ?thesis by (simp add: unmount_def)
qed (use assms in simp_all)

lemma step_unmounted:
  assumes "timers s = {}" "\<not> mounted s"
  shows "timers (step s e) = {} \<and> \<not> mounted (step s e) \<and> status_requests (step s e) = status_requests s"
proof (cases "starts_polling e")
  case True
  then obtain data where "e = TriggerDone (Some data)"
    by (cases e rule: starts_polling.cases) simp_all
  with assms show ?thesis by simp
next
  case False
  with step_quiet [of s e] step_stays_unmounted [of s e] assms show ?thesis by simp
qed

lemma run_unmounted:
  assumes "timers s = {}" "\<not> mounted s"
  shows "timers (run s es) = {} \<and> status_requests (run s es) = status_requests s"
  using assms
proof (induction es arbitrary: s)
  case Nil
  then show ?case by (simp add: run_def)
next
  case (Cons e es)
  note q = step_unmounted [OF Cons.prems]
  from Cons.IH [of "step s e"] q show ?case
    by (simp add: run_Cons)
qed

lemma terminal_quiet:
  assumes "timers s \<subseteq> set_option (pollRef s)" "timers s \<noteq> {} \<longrightarrow> cleanup s \<and> mounted s" "terminal d"
  shows "timers (step s (PollDone (Some d))) = {}
       \<and> (\<not> mounted (step s (PollDone (Some d))) \<or> \<not> polling (step s (PollDone (Some d))))"
proof -
  define s1 where "s1 = (if mounted s then s\<lparr>job := Some d\<rparr> else s)"
  define s2 where "s2 = clearInterval (pollRef s1) (if mounted s1 then s1\<lparr>polling := False\<rparr> else s1)"
  have q2: "timers s2 = {}" "\<not> mounted s2 \<or> \<not> polling s2"
    using assms(1) by (auto simp add: s1_def s2_def timers_clearInterval)
  have "step s (PollDone (Some d)) = commit s2"
    using assms(3) by (simp add: s1_def s2_def Let_def)
  with commit_quiet [OF q2] show ?thesis by simp
qed

text \<open>
  Claim C4. Once a status poll has returned a terminal status, no interval timer is
  left, and as long as no trigger response starts a new job, whatever happens next
  (ticks, late poll responses, closing the panel) starts no timer and sends no further
  status request. Closing the panel at any moment leaves no timer either, and no status
  request is sent after it.
\<close>

theorem poll_stops_at_terminal:
  assumes "terminal d" and "list_all (\<lambda>e. \<not> starts_polling e) after"
  shows "timers (run init (before @ [PollDone (Some d)])) = {}
       \<and> timers (run init (before @ PollDone (Some d) # after)) = {}
       \<and> status_requests (run init (before @ PollDone (Some d) # after))
           = status_requests (run init (before @ [PollDone (Some d)]))
       \<and> timers (run init (before @ [Close])) = {}
       \<and> timers (run init (before @ Close # rest)) = {}
       \<and> status_requests (run init (before @ Close # rest)) = status_requests (run init before)"
proof -
  note i = run_inv [of before]
  define s where "s = run init before"
  have inv: "timers s \<subseteq> set_option (pollRef s)" "timers s \<noteq> {} \<longrightarrow> cleanup s \<and> mounted s"
    using i by (simp_all add: s_def)
  note t = terminal_quiet [OF inv assms(1)]
  have a: "timers (step s (PollDone (Some d))) = {}"
    using t by simp
  have b: "timers (run (step s (PollDone (Some d))) after) = {}
         \<and> status_requests (run (step s (PollDone (Some d))) after)
           = status_requests (step s (PollDone (Some d)))"
    using t assms(2) by (intro run_quiet) simp_all
  note u = unmount_inv [OF inv]
  have c: "timers (step s Close) = {}" "\<not> mounted (step s Close)"
       "status_requests (step s Close) = status_requests s"
    using u by (simp_all add: unmount_def run_cleanup_def)
  have d: "timers (run (step s Close) rest) = {}
         \<and> status_requests (run (step s Close) rest) = status_requests (step s Close)"
    using c by (intro run_unmounted) simp_all
  from a b c d show ?thesis
    by (simp add: run_append run_Cons s_def run_def)
qed

text \<open>
  A job is triggered; its first poll returns \<^verbatim>\<open>running\<close>, its second \<^verbatim>\<open>complete\<close>. The
  timer that was running is gone, and a late tick and a late response change nothing.
\<close>

theorem poll_stops_at_terminal_witness:
  "terminal \<lparr>job_id = Some ''j1'', status = ''complete''\<rparr>
   \<and> list_all (\<lambda>e. \<not> starts_polling e)
        [Tick 0, PollDone (Some \<lparr>job_id = Some ''j1'', status = ''running''\<rparr>)]
   \<and> timers (run init [TriggerClick, TriggerDone (Some \<lparr>job_id = Some ''j1'', status = ''queued''\<rparr>),
                        Tick 0, PollDone (Some \<lparr>job_id = Some ''j1'', status = ''running''\<rparr>),
                        Tick 0]) = {0}
   \<and> timers (run init ([TriggerClick, TriggerDone (Some \<lparr>job_id = Some ''j1'', status = ''queued''\<rparr>),
                        Tick 0, PollDone (Some \<lparr>job_id = Some ''j1'', status = ''running''\<rparr>),
                        Tick 0]
                       @ [PollDone (Some \<lparr>job_id = Some ''j1'', status = ''complete''\<rparr>)])) = {}
   \<and> status_requests
        (run init ([TriggerClick, TriggerDone (Some \<lparr>job_id = Some ''j1'', status = ''queued''\<rparr>),
                    Tick 0, PollDone (Some \<lparr>job_id = Some ''j1'', status = ''running''\<rparr>),
                    Tick 0]
                   @ PollDone (Some \<lparr>job_id = Some ''j1'', status = ''complete''\<rparr>)
                     # [Tick 0, PollDone (Some \<lparr>job_id = Some ''j1'', status = ''running''\<rparr>)])) = 2
   \<and> timers (run init ([TriggerClick, TriggerDone (Some \<lparr>job_id = Some ''j1'', status = ''queued''\<rparr>),
                        Tick 0, PollDone (Some \<lparr>job_id = Some ''j1'', status = ''running''\<rparr>),
                        Tick 0]
                       @ Close # [Tick 0])) = {}"
  using poll_stops_at_terminal [of "\<lparr>job_id = Some ''j1'', status = ''complete''\<rparr>"
      "[Tick 0, PollDone (Some \<lparr>job_id = Some ''j1'', status = ''running''\<rparr>)]"
      "[TriggerClick, TriggerDone (Some \<lparr>job_id = Some ''j1'', status = ''queued''\<rparr>),
        Tick 0, PollDone (Some \<lparr>job_id = Some ''j1'', status = ''running''\<rparr>), Tick 0]"
      "[Tick 0]"]
  by (simp add: run_def init_def terminal_def commit_def poll_effect_def run_cleanup_def
        dep_job_id_def clearInterval_def unmount_def)

text \<open>
  Claim C5 says that a failed trigger request, or a response without a job id, brings
  the controller back to idle with a visible error. After a failed request the panel
  shows exactly the form it showed before, with no error; after a response without a
  job id it shows the job, polling is set, and no timer runs.
\<close>

theorem trigger_failure_counterexample:
  "view_of (step init (TriggerDone None))
     = TriggerForm [''hausples'', ''professionals'', ''agencies''] True
   \<and> view_of init = TriggerForm [''hausples'', ''professionals'', ''agencies''] True
   \<and> view_of (step init (TriggerDone (Some \<lparr>job_id = None, status = ''queued''\<rparr>)))
     = JobView \<lparr>job_id = None, status = ''queued''\<rparr> False
   \<and> polling (step init (TriggerDone (Some \<lparr>job_id = None, status = ''queued''\<rparr>)))
   \<and> timers (step init (TriggerDone (Some \<lparr>job_id = None, status = ''queued''\<rparr>))) = {}"
  by (simp add: init_def view_of_def commit_def poll_effect_def run_cleanup_def dep_job_id_def
        terminal_def)

text \<open>
  Claim C5, amended. When the trigger request fails, the state of the panel is left
  as it was: a click on the start button followed by the failure changes neither
  what the panel shows nor the job, the polling flag or the timers; from idle the
  panel stays idle, and nothing is shown to the user. There is no triggering state.
\<close>

theorem trigger_failure_silent:
  "step s (TriggerDone None) = s
   \<and> view_of (run s [TriggerClick, TriggerDone None]) = view_of s
   \<and> job (run s [TriggerClick, TriggerDone None]) = job s
   \<and> polling (run s [TriggerClick, TriggerDone None]) = polling s
   \<and> timers (run s [TriggerClick, TriggerDone None]) = timers s"
  by (simp add: run_def view_of_def)

theorem trigger_failure_silent_witness:
  "run init [TriggerClick, TriggerDone None] = init\<lparr>trigger_requests := 1\<rparr>
   \<and> view_of (run init [TriggerClick, TriggerDone None])
     = TriggerForm [''hausples'', ''professionals'', ''agencies''] True
   \<and> job (run init [TriggerClick, TriggerDone None]) = None
   \<and> \<not> polling (run init [TriggerClick, TriggerDone None])
   \<and> timers (run init [TriggerClick, TriggerDone None]) = {}"
  using trigger_failure_silent [of init]
  by (simp add: run_def init_def view_of_def)

section \<open>Properties of the supply and demand labels\<close>

text \<open>
  Claim C6 says that every view treats a supply percentage of zero as a large ratio,
  hence \<^verbatim>\<open>High Demand\<close>. For a suburb with supply 0 and demand score 60, next to one with
  supply 50, the analytics view divides by its fallback 50 and shows \<^verbatim>\<open>Balanced\<close>, where
  the dashboard panel divides by its fallback 1 and shows \<^verbatim>\<open>High Demand\<close>.
\<close>

theorem supply_demand_views_differ:
  "AnalyticsView [\<lparr>supply_count = Some 0, demand_score = Some 60\<rparr>, \<lparr>supply_count = Some 50, demand_score = Some 60\<rparr>]
     = [''Balanced'', ''Oversupply'']
   \<and> SupplyDemand [\<lparr>supply_count = Some 0, demand_score = Some 60\<rparr>, \<lparr>supply_count = Some 50, demand_score = Some 60\<rparr>]
     = Some [''High Demand'', ''Oversupply'']"
  by (simp add: AnalyticsView_def SupplyDemand_def AnalyticsView_ratio_def SupplyDemand_ratio_def
        maxS_of_def Math_max_def supplyPct_def sd_label_def js_or_def js_gt_def)

section \<open>Properties of the heatmap bubbles\<close>

lemma rOf_fin: "0 < m \<Longrightarrow> 0 \<le> l \<Longrightarrow> rOf (Fin m) (Fin l) = Fin (22 + sqrt (l / m) * 28)"
  by (simp add: rOf_def not_less)

text \<open>
  Claim C7 says that a listing count of 0 gives the radius \<open>r0 = 22\<close> and that the radius
  does not decrease as the count grows. The radius drawn is \<^verbatim>\<open>rOf(s.listings || 20)\<close>: of
  two suburbs with 0 and 5 listings, the first is drawn with radius 78, the second with
  radius 50.
\<close>

theorem bubble_radius_counterexample:
  "map_option (map (map_option radius))
     (HeatmapViz [\<lparr>avg_price = Some 1450, listings = Some 0, lat = Some (- 9.415), lng = Some 147.15\<rparr>,
                  \<lparr>avg_price = Some 2900, listings = Some 5, lat = Some (- 9.4721), lng = Some 147.1847\<rparr>])
   = Some [Some (Fin 78), Some (Fin 50)]"
  by (simp add: HeatmapViz_def bubble_of_def maxL_of_def Math_max_def rOf_def)

text \<open>
  Claim C7, amended. For a fixed \<open>maxListings > 0\<close>, \<open>rOf l = 22 + sqrt (l / maxListings) * 28\<close>
  does not decrease as \<open>l \<ge> 0\<close> grows, \<open>rOf maxListings = 50\<close> and \<open>rOf 0 = 22\<close>; the radius
  drawn for a suburb with coordinates is \<open>rOf\<close> of its listing count when that is not
  zero, and \<open>rOf 20\<close> when the count is zero or missing.
\<close>

theorem bubble_radius:
  assumes "0 < m"
  shows "(0 \<le> l1 \<and> l1 \<le> l2 \<longrightarrow> js_le (rOf (Fin m) (Fin l1)) (rOf (Fin m) (Fin l2)))
       \<and> rOf (Fin m) (Fin m) = Fin 50
       \<and> rOf (Fin m) (Fin 0) = Fin 22
       \<and> (truthy_val (lat s) \<and> truthy_val (lng s) \<longrightarrow>
            map_option radius (bubble_of (Fin m) s)
            = Some (rOf (Fin m) (Fin (case listings s of None \<Rightarrow> 20 | Some c \<Rightarrow> if c = 0 then 20 else c))))"
proof -
  have mono: "js_le (rOf (Fin m) (Fin l1)) (rOf (Fin m) (Fin l2))" if "0 \<le> l1" "l1 \<le> l2"
  proof -
    from that assms have "l1 / m \<le> l2 / m"
      by (simp add: divide_right_mono)
    then have "sqrt (l1 / m) \<le> sqrt (l2 / m)"
      by simp
    with that assms show ?thesis
      by (simp add: rOf_fin)
  qed
  have top: "rOf (Fin m) (Fin m) = Fin 50"
    using assms by (simp add: rOf_fin)
  have bot: "rOf (Fin m) (Fin 0) = Fin 22"
    using assms by (simp add: rOf_fin)
  have drawn: "map_option radius (bubble_of (Fin m) s)
            = Some (rOf (Fin m) (Fin (case listings s of None \<Rightarrow> 20 | Some c \<Rightarrow> if c = 0 then 20 else c)))"
    if "truthy_val (lat s)" "truthy_val (lng s)"
    using that by (cases "listings s") (simp_all add: bubble_of_def)
  from mono top bot drawn show ?thesis by blast
qed

theorem bubble_radius_witness:
  "(0::real) < 5 \<and> js_le (rOf (Fin 5) (Fin 0)) (rOf (Fin 5) (Fin 5))
   \<and> rOf (Fin 5) (Fin 5) = Fin 50 \<and> rOf (Fin 5) (Fin 0) = Fin 22
   \<and> map_option radius (bubble_of (Fin 5) \<lparr>avg_price = Some 1450, listings = Some 0, lat = Some (- 9.415), lng = Some 147.15\<rparr>)
     = Some (Fin 78)"
  using bubble_radius [of 5 0 5 "\<lparr>avg_price = Some 1450, listings = Some 0, lat = Some (- 9.415), lng = Some 147.15\<rparr>"]
  by (simp add: rOf_def)

section \<open>Properties of the trend chart\<close>

text \<open>
  Claim C8 says that fewer than two points give the no-data message. A single point is
  charted: the horizontal position of index 0 is \<open>0 / (1 - 1)\<close>, that is \<^verbatim>\<open>NaN\<close>.
\<close>

theorem single_point_chart:
  "LineChart [\<lparr>week = ''Jan 19'', vals = [''Waigani'' \<mapsto> 4200]\<rparr>]
   = Svg [(Fin 4200, Fin 132), (Fin (4200 + 1/3), Fin 92), (Fin (4200 + 2/3), Fin 52), (Fin 4201, Fin 12)]
         [Some \<lparr>polyline = [(NaN, Fin 132)], circles = [(NaN, Fin 132)]\<rparr>, None, None]
         [(NaN, ''Jan 19'')]"
  by (simp add: LineChart_def gridlines_of_def series_of_def pts_of_def circles_of_def keys_def
        toX_def toY_def minV_def maxV_def range_of_def allV_def Math_min_def Math_max_def js_or_def
        js_sub_def iW_def iH_def PL_def PT_def PB_def PR_def chart_W_def chart_H_def
        List.map_filter_def enumerate_eq_zip signed_inf_def Let_def)

text \<open>
  Claim C9 says that the line of a series is broken at a missing value. With values at
  indices 0 and 2 and none at index 1, the series is one polyline of two vertices, the
  points of index 0 and index 2: they are joined directly.
\<close>

theorem gap_joined_counterexample:
  "map (map_option polyline)
     (series (LineChart [\<lparr>week = ''Jan 19'', vals = [''Waigani'' \<mapsto> 4200]\<rparr>,
                         \<lparr>week = ''Jan 26'', vals = Map.empty\<rparr>,
                         \<lparr>week = ''Feb 2'', vals = [''Waigani'' \<mapsto> 4400]\<rparr>]))
   = [Some [(Fin 55, Fin 132), (Fin 544, Fin 12)], None, None]"
  by (simp add: LineChart_def gridlines_of_def series_of_def pts_of_def circles_of_def keys_def
        toX_def toY_def minV_def maxV_def range_of_def allV_def Math_min_def Math_max_def js_or_def
        js_sub_def iW_def iH_def PL_def PT_def PB_def PR_def chart_W_def chart_H_def
        List.map_filter_def enumerate_eq_zip signed_inf_def Let_def)

lemma enumerate_nth:
  "enumerate n xs = map (\<lambda>i. (i, xs ! (i - n))) [n..<n + length xs]"
  by (rule nth_equalityI) (simp_all add: nth_enumerate_eq)

lemma map_filter_enumerate:
  "List.map_filter (\<lambda>(i, d). if P d then Some (f i d) else None) (enumerate n xs)
   = map (\<lambda>i. f i (xs ! (i - n))) (filter (\<lambda>i. P (xs ! (i - n))) [n..<n + length xs])"
  by (simp add: List.map_filter_def enumerate_nth filter_map o_def)

text \<open>
  Claim C9, amended. For every series, no circle and no polyline vertex is rendered
  for an index whose value is missing; the series is drawn as one polyline whose
  vertices are the points with a value, in index order (so the points on either side
  of a missing index are joined), with one circle at each vertex.
\<close>

theorem series_polyline:
  "pts_of trends k
     = map (\<lambda>i. (toX trends i, toY trends (to_num (vals (trends ! i) k))))
           (filter (\<lambda>i. truthy_val (vals (trends ! i) k)) [0..<length trends])
   \<and> circles_of trends k = pts_of trends k
   \<and> series_of trends k
     = (if pts_of trends k = [] then None
        else Some \<lparr>polyline = pts_of trends k, circles = pts_of trends k\<rparr>)
   \<and> series (LineChart (d # ds)) = map (series_of (d # ds)) keys"
proof -
  have a: "pts_of trends k
     = map (\<lambda>i. (toX trends i, toY trends (to_num (vals (trends ! i) k))))
           (filter (\<lambda>i. truthy_val (vals (trends ! i) k)) [0..<length trends])"
    unfolding pts_of_def
    using map_filter_enumerate [of "\<lambda>d. truthy_val (vals d k)"
        "\<lambda>i d. (toX trends i, toY trends (to_num (vals d k)))" 0 trends]
    by simp
  have b: "circles_of trends k = pts_of trends k"
    by (simp add: circles_of_def pts_of_def)
  have c: "series_of trends k
     = (if pts_of trends k = [] then None
        else Some \<lparr>polyline = pts_of trends k, circles = pts_of trends k\<rparr>)"
    by (simp add: series_of_def Let_def b)
  have d: "series (LineChart (d # ds)) = map (series_of (d # ds)) keys"
    by (simp add: LineChart_def)
  from a b c d show ?thesis by blast
qed

theorem series_polyline_witness:
  "pts_of [\<lparr>week = ''Jan 19'', vals = [''Waigani'' \<mapsto> 4200]\<rparr>,
           \<lparr>week = ''Jan 26'', vals = Map.empty\<rparr>,
           \<lparr>week = ''Feb 2'', vals = [''Waigani'' \<mapsto> 4400]\<rparr>] ''Waigani''
   = [(Fin 55, Fin 132), (Fin 544, Fin 12)]"
  using series_polyline [of "[\<lparr>week = ''Jan 19'', vals = [''Waigani'' \<mapsto> 4200]\<rparr>,
           \<lparr>week = ''Jan 26'', vals = Map.empty\<rparr>,
           \<lparr>week = ''Feb 2'', vals = [''Waigani'' \<mapsto> 4400]\<rparr>]" "''Waigani''"]
  by (simp add: keys_def toX_def toY_def minV_def maxV_def range_of_def allV_def Math_min_def
        Math_max_def js_or_def js_sub_def iW_def iH_def PL_def PT_def PB_def PR_def chart_W_def
        chart_H_def upt_rec)

lemma filter_truthy_cong:
  assumes "\<forall>k. truthy_val (f k) = truthy_val (g k) \<and> (truthy_val (f k) \<longrightarrow> f k = g k)"
  shows "filter truthy_val (map f ks) = filter truthy_val (map g ks)"
proof (induction ks)
  case Nil
  show ?case by simp
next
  case (Cons k ks)
  from assms have "truthy_val (f k) = truthy_val (g k)" "truthy_val (f k) \<longrightarrow> f k = g k"
    by blast+
  with Cons.IH show ?case
    by (cases "truthy_val (f k)") simp_all
qed


lemma allV_Cons:
  "allV (a # xs) = map to_num (filter truthy_val (map (\<lambda>k. vals a k) keys)) @ allV xs"
  by (simp add: allV_def)

lemma allV_cong:
  assumes "list_all2 (\<lambda>a b. week a = week b \<and> (\<forall>k. truthy_val (vals a k) = truthy_val (vals b k)
                              \<and> (truthy_val (vals a k) \<longrightarrow> vals a k = vals b k))) xs ys"
  shows "allV xs = allV ys"
  using assms
proof (induction rule: list_all2_induct)
  case Nil
  show ?case by simp
next
  case (Cons a xs b ys)
  from Cons.hyps(1)
  have "\<forall>k. truthy_val (vals a k) = truthy_val (vals b k) \<and> (truthy_val (vals a k) \<longrightarrow> vals a k = vals b k)"
    by blast
  then have "filter truthy_val (map (\<lambda>k. vals a k) keys) = filter truthy_val (map (\<lambda>k. vals b k) keys)"
    by (rule filter_truthy_cong)
  with Cons.IH show ?case
    by (simp only: allV_Cons)
qed


lemma vertices_cong:
  assumes "list_all2 (\<lambda>a b. week a = week b \<and> (\<forall>k. truthy_val (vals a k) = truthy_val (vals b k)
                              \<and> (truthy_val (vals a k) \<longrightarrow> vals a k = vals b k))) xs ys"
  shows "List.map_filter (\<lambda>(i, d). if truthy_val (vals d k) then Some (fx i, fy (to_num (vals d k))) else None)
           (enumerate n xs)
       = List.map_filter (\<lambda>(i, d). if truthy_val (vals d k) then Some (fx i, fy (to_num (vals d k))) else None)
           (enumerate n ys)"
  using assms
proof (induction arbitrary: n rule: list_all2_induct)
  case Nil
  show ?case by simp
next
  case (Cons a xs b ys)
  from Cons.hyps(1) have ab: "truthy_val (vals a k) = truthy_val (vals b k)"
    "truthy_val (vals a k) \<longrightarrow> vals a k = vals b k"
    by blast+
  show ?case
  proof (cases "truthy_val (vals a k)")
    case True
    with ab have "truthy_val (vals b k)" "vals a k = vals b k" by simp_all
    with True Cons.IH [of "Suc n"] show ?thesis
      by (simp add: List.map_filter_simps)
  next
    case False
    with ab have "\<not> truthy_val (vals b k)" by simp
    with False Cons.IH [of "Suc n"] show ?thesis
      by (simp add: List.map_filter_simps)
  qed
qed

lemma axis_cong:
  assumes "list_all2 (\<lambda>a b. week a = week b \<and> (\<forall>k. truthy_val (vals a k) = truthy_val (vals b k)
                              \<and> (truthy_val (vals a k) \<longrightarrow> vals a k = vals b k))) xs ys"
  shows "map (\<lambda>(i, d). (fx i, week d)) (enumerate n xs) = map (\<lambda>(i, d). (fx i, week d)) (enumerate n ys)"
  using assms
proof (induction arbitrary: n rule: list_all2_induct)
  case Nil
  show ?case by simp
next
  case (Cons a xs b ys)
  from Cons.hyps(1) have "week a = week b" by blast
  with Cons.IH [of "Suc n"] show ?case by simp
qed


lemma LineChart_cong:
  assumes "list_all2 (\<lambda>a b. week a = week b \<and> (\<forall>k. truthy_val (vals a k) = truthy_val (vals b k)
                              \<and> (truthy_val (vals a k) \<longrightarrow> vals a k = vals b k))) xs ys"
  shows "allV xs = allV ys \<and> LineChart xs = LineChart ys
       \<and> pts_of xs q = pts_of ys q \<and> circles_of xs q = circles_of ys q"
proof -
  have len: "length xs = length ys"
    using assms by (rule list_all2_lengthD)
  have av: "allV xs = allV ys"
    using assms by (rule allV_cong)
  have mm: "minV xs = minV ys" "maxV xs = maxV ys" "range_of xs = range_of ys"
    by (simp_all only: minV_def maxV_def range_of_def av)
  have tx: "toX xs = toX ys"
    by (rule ext) (simp only: toX_def len)
  have ty: "toY xs = toY ys"
    by (rule ext) (simp only: toY_def mm)
  have pts: "pts_of xs k = pts_of ys k" for k
    unfolding pts_of_def tx ty using assms by (rule vertices_cong)
  have cs: "circles_of xs k = circles_of ys k" for k
    unfolding circles_of_def tx ty using assms by (rule vertices_cong)
  have ser: "series_of xs = series_of ys"
    by (rule ext) (simp only: series_of_def pts cs)
  have gl: "gridlines_of xs = gridlines_of ys"
    by (simp only: gridlines_of_def mm ty)
  have ax: "map (\<lambda>(i, d). (toX xs i, week d)) (enumerate 0 xs)
          = map (\<lambda>(i, d). (toX ys i, week d)) (enumerate 0 ys)"
    unfolding tx using assms by (rule axis_cong)
  have e: "xs = [] \<longleftrightarrow> ys = []"
    using len by (cases xs; cases ys) simp_all
  have "LineChart xs = LineChart ys"
    by (simp only: LineChart_def ser gl ax e)
  with av pts [of q] cs [of q] show ?thesis by simp
qed

lemma rel_zero_missing:
  "week (a\<lparr>vals := (vals a)(k \<mapsto> 0)\<rparr>) = week (a\<lparr>vals := (vals a)(k := None)\<rparr>)
   \<and> (\<forall>q. truthy_val (vals (a\<lparr>vals := (vals a)(k \<mapsto> 0)\<rparr>) q) = truthy_val (vals (a\<lparr>vals := (vals a)(k := None)\<rparr>) q)
        \<and> (truthy_val (vals (a\<lparr>vals := (vals a)(k \<mapsto> 0)\<rparr>) q)
             \<longrightarrow> vals (a\<lparr>vals := (vals a)(k \<mapsto> 0)\<rparr>) q = vals (a\<lparr>vals := (vals a)(k := None)\<rparr>) q))"
  by simp

lemma allV_mem:
  "x \<in> set (allV ts)
   \<longleftrightarrow> (\<exists>d \<in> set ts. \<exists>k \<in> set keys. truthy_val (vals d k) \<and> x = to_num (vals d k))"
  by (auto simp add: allV_def)

lemma zero_not_in_allV: "Fin 0 \<notin> set (allV ts)"
proof
  assume "Fin 0 \<in> set (allV ts)"
  then have "\<exists>(d::trend_point) k. truthy_val (vals d k) \<and> Fin 0 = to_num (vals d k)"
    unfolding allV_mem by blast
  then obtain d :: trend_point and k where "truthy_val (vals d k)" "Fin 0 = to_num (vals d k)"
    by blast
  then show False
    by (cases "vals d k") simp_all
qed

lemma vertices_skip_falsy:
  assumes "i < length ts \<longrightarrow> \<not> truthy_val (vals (ts ! i) k)"
  shows "List.map_filter
           (\<lambda>(j, d). if truthy_val (vals d k) then Some (fx j, fy (to_num (vals d k))) else None)
           (enumerate 0 ts)
         = map (\<lambda>j. (fx j, fy (to_num (vals (ts ! j) k))))
               (filter (\<lambda>j. j \<noteq> i \<and> truthy_val (vals (ts ! j) k)) [0..<length ts])"
proof -
  have "truthy_val (vals (ts ! j) k) \<longleftrightarrow> j \<noteq> i \<and> truthy_val (vals (ts ! j) k)"
    if "j \<in> set [0..<length ts]" for j
    using that assms by (cases "j = i") simp_all
  then have "filter (\<lambda>j. truthy_val (vals (ts ! j) k)) [0..<length ts]
           = filter (\<lambda>j. j \<noteq> i \<and> truthy_val (vals (ts ! j) k)) [0..<length ts]"
    by (rule filter_cong [OF refl])
  with map_filter_enumerate [of "\<lambda>d. truthy_val (vals d k)" "\<lambda>j d. (fx j, fy (to_num (vals d k)))" 0 ts]
  show ?thesis by simp
qed

lemma zero_is_falsy:
  "i < length (trends[i := (trends ! i)\<lparr>vals := (vals (trends ! i))(k \<mapsto> 0)\<rparr>]) \<longrightarrow>
   \<not> truthy_val (vals (trends[i := (trends ! i)\<lparr>vals := (vals (trends ! i))(k \<mapsto> 0)\<rparr>] ! i) k)"
  by simp

lemma pts_skip_zero:
  "pts_of (trends[i := (trends ! i)\<lparr>vals := (vals (trends ! i))(k \<mapsto> 0)\<rparr>]) k
   = map (\<lambda>j. (toX (trends[i := (trends ! i)\<lparr>vals := (vals (trends ! i))(k \<mapsto> 0)\<rparr>]) j,
                toY (trends[i := (trends ! i)\<lparr>vals := (vals (trends ! i))(k \<mapsto> 0)\<rparr>])
                    (to_num (vals (trends[i := (trends ! i)\<lparr>vals := (vals (trends ! i))(k \<mapsto> 0)\<rparr>] ! j) k))))
         (filter (\<lambda>j. j \<noteq> i \<and> truthy_val (vals (trends[i := (trends ! i)\<lparr>vals := (vals (trends ! i))(k \<mapsto> 0)\<rparr>] ! j) k))
                 [0..<length (trends[i := (trends ! i)\<lparr>vals := (vals (trends ! i))(k \<mapsto> 0)\<rparr>])])"
  unfolding pts_of_def by (rule vertices_skip_falsy) (rule zero_is_falsy)

lemma circles_skip_zero:
  "circles_of (trends[i := (trends ! i)\<lparr>vals := (vals (trends ! i))(k \<mapsto> 0)\<rparr>]) k
   = map (\<lambda>j. (toX (trends[i := (trends ! i)\<lparr>vals := (vals (trends ! i))(k \<mapsto> 0)\<rparr>]) j,
                toY (trends[i := (trends ! i)\<lparr>vals := (vals (trends ! i))(k \<mapsto> 0)\<rparr>])
                    (to_num (vals (trends[i := (trends ! i)\<lparr>vals := (vals (trends ! i))(k \<mapsto> 0)\<rparr>] ! j) k))))
         (filter (\<lambda>j. j \<noteq> i \<and> truthy_val (vals (trends[i := (trends ! i)\<lparr>vals := (vals (trends ! i))(k \<mapsto> 0)\<rparr>] ! j) k))
                 [0..<length (trends[i := (trends ! i)\<lparr>vals := (vals (trends ! i))(k \<mapsto> 0)\<rparr>])])"
  unfolding circles_of_def by (rule vertices_skip_falsy) (rule zero_is_falsy)

text \<open>
  Claim C10. A series value equal to 0 is treated exactly like a missing value: the
  chart of a series with the value 0 at an index is the chart of the series with no
  value there, and so are the values that enter the minimum and the maximum, the
  vertices of the polyline and the circles. With the value 0 at index \<open>i\<close> of series
  \<open>k\<close>, the minimum and the maximum are taken over values among which 0 does not
  occur, and the polyline vertices and the circles of the series are those of the
  indices other than \<open>i\<close> that have a value: none is rendered for index \<open>i\<close>.
\<close>

theorem zero_value_as_missing:
  "LineChart (trends[i := (trends ! i)\<lparr>vals := (vals (trends ! i))(k \<mapsto> 0)\<rparr>])
     = LineChart (trends[i := (trends ! i)\<lparr>vals := (vals (trends ! i))(k := None)\<rparr>])
   \<and> allV (trends[i := (trends ! i)\<lparr>vals := (vals (trends ! i))(k \<mapsto> 0)\<rparr>])
     = allV (trends[i := (trends ! i)\<lparr>vals := (vals (trends ! i))(k := None)\<rparr>])
   \<and> pts_of (trends[i := (trends ! i)\<lparr>vals := (vals (trends ! i))(k \<mapsto> 0)\<rparr>]) k
     = pts_of (trends[i := (trends ! i)\<lparr>vals := (vals (trends ! i))(k := None)\<rparr>]) k
   \<and> circles_of (trends[i := (trends ! i)\<lparr>vals := (vals (trends ! i))(k \<mapsto> 0)\<rparr>]) k
     = circles_of (trends[i := (trends ! i)\<lparr>vals := (vals (trends ! i))(k := None)\<rparr>]) k
   \<and> (let T = trends[i := (trends ! i)\<lparr>vals := (vals (trends ! i))(k \<mapsto> 0)\<rparr>]
      in Fin 0 \<notin> set (allV T)
       \<and> minV T = Math_min (allV T) \<and> maxV T = Math_max (allV T)
       \<and> pts_of T k
         = map (\<lambda>j. (toX T j, toY T (to_num (vals (T ! j) k))))
               (filter (\<lambda>j. j \<noteq> i \<and> truthy_val (vals (T ! j) k)) [0..<length T])
       \<and> circles_of T k
         = map (\<lambda>j. (toX T j, toY T (to_num (vals (T ! j) k))))
               (filter (\<lambda>j. j \<noteq> i \<and> truthy_val (vals (T ! j) k)) [0..<length T]))"
proof -
  have "list_all2 (\<lambda>a b. week a = week b \<and> (\<forall>k. truthy_val (vals a k) = truthy_val (vals b k)
                              \<and> (truthy_val (vals a k) \<longrightarrow> vals a k = vals b k))) trends trends"
    by (rule list_all2_refl) simp
  then have "list_all2 (\<lambda>a b. week a = week b \<and> (\<forall>k. truthy_val (vals a k) = truthy_val (vals b k)
                              \<and> (truthy_val (vals a k) \<longrightarrow> vals a k = vals b k)))
           (trends[i := (trends ! i)\<lparr>vals := (vals (trends ! i))(k \<mapsto> 0)\<rparr>])
           (trends[i := (trends ! i)\<lparr>vals := (vals (trends ! i))(k := None)\<rparr>])"
    by (rule list_all2_update_cong) (rule rel_zero_missing)
  note same = LineChart_cong [OF this, of k]
  have out: "Fin 0 \<notin> set (allV (trends[i := (trends ! i)\<lparr>vals := (vals (trends ! i))(k \<mapsto> 0)\<rparr>]))"
    by (rule zero_not_in_allV)
  have mm: "minV (trends[i := (trends ! i)\<lparr>vals := (vals (trends ! i))(k \<mapsto> 0)\<rparr>])
              = Math_min (allV (trends[i := (trends ! i)\<lparr>vals := (vals (trends ! i))(k \<mapsto> 0)\<rparr>]))"
    "maxV (trends[i := (trends ! i)\<lparr>vals := (vals (trends ! i))(k \<mapsto> 0)\<rparr>])
              = Math_max (allV (trends[i := (trends ! i)\<lparr>vals := (vals (trends ! i))(k \<mapsto> 0)\<rparr>]))"
    by (simp_all only: minV_def maxV_def)
  from same out mm pts_skip_zero [of trends i k] circles_skip_zero [of trends i k]
  show ?thesis
    unfolding Let_def by blast
qed

text \<open>
  The value 0 of the second series at the first point enters neither the minimum nor
  the polyline of that series, whose only vertex is the second point.
\<close>

theorem zero_value_as_missing_witness:
  "LineChart [\<lparr>week = ''Jan 19'', vals = [''Waigani'' \<mapsto> 4200, ''Boroko'' \<mapsto> 0]\<rparr>,
              \<lparr>week = ''Jan 26'', vals = [''Waigani'' \<mapsto> 4400, ''Boroko'' \<mapsto> 3000]\<rparr>]
   = LineChart [\<lparr>week = ''Jan 19'', vals = [''Waigani'' \<mapsto> 4200]\<rparr>,
              \<lparr>week = ''Jan 26'', vals = [''Waigani'' \<mapsto> 4400, ''Boroko'' \<mapsto> 3000]\<rparr>]
   \<and> allV [\<lparr>week = ''Jan 19'', vals = [''Waigani'' \<mapsto> 4200, ''Boroko'' \<mapsto> 0]\<rparr>,
              \<lparr>week = ''Jan 26'', vals = [''Waigani'' \<mapsto> 4400, ''Boroko'' \<mapsto> 3000]\<rparr>]
     = [Fin 4200, Fin 4400, Fin 3000]
   \<and> minV [\<lparr>week = ''Jan 19'', vals = [''Waigani'' \<mapsto> 4200, ''Boroko'' \<mapsto> 0]\<rparr>,
              \<lparr>week = ''Jan 26'', vals = [''Waigani'' \<mapsto> 4400, ''Boroko'' \<mapsto> 3000]\<rparr>]
     = Fin 3000
   \<and> pts_of [\<lparr>week = ''Jan 19'', vals = [''Waigani'' \<mapsto> 4200, ''Boroko'' \<mapsto> 0]\<rparr>,
              \<lparr>week = ''Jan 26'', vals = [''Waigani'' \<mapsto> 4400, ''Boroko'' \<mapsto> 3000]\<rparr>] ''Boroko''
     = [(Fin 544, Fin 132)]"
  using zero_value_as_missing [of "[\<lparr>week = ''Jan 19'', vals = [''Waigani'' \<mapsto> 4200]\<rparr>,
              \<lparr>week = ''Jan 26'', vals = [''Waigani'' \<mapsto> 4400, ''Boroko'' \<mapsto> 3000]\<rparr>]" 0 "''Boroko''"]
  by (simp add: allV_def keys_def fun_upd_twist pts_of_def List.map_filter_def enumerate_eq_zip
        toX_def toY_def minV_def maxV_def range_of_def Math_min_def Math_max_def js_or_def
        js_sub_def iW_def iH_def PL_def PT_def PB_def PR_def chart_W_def chart_H_def)

end
